theory Spec2Isabelle
  imports Complex_Main "HOL-Library.AList"
begin

section \<open>HTTP Storm: the request issuer, the statistics and the run control\<close>

text \<open>
  A shallow embedding of \<^verbatim>\<open>src/storm.py\<close>. Everything the program takes from
  outside is an explicit input: the draws of \<^verbatim>\<open>random\<close>, the answer of the network
  to a request, the time an exchange takes. What it hands to the HTTP library is kept
  in the state, in order. Wall-clock time is a real number that only
  \<^verbatim>\<open>time.sleep\<close>, \<^verbatim>\<open>asyncio.sleep\<close> and a network exchange advance. Python
  dictionaries are association lists with distinct keys, updated in place as Python
  does; Python integers are \<^typ>\<open>int\<close>; strings are byte strings, so the lengths
  agree with Python's on ASCII text.
\<close>

subsection \<open>Python values\<close>

text \<open>
  The exceptions that reach a handler of the program. \<open>RequestsTimeout\<close> is any instance
  of \<^verbatim>\<open>requests.exceptions.Timeout\<close>; \<open>AsyncioTimeoutError\<close> is the
  \<^verbatim>\<open>asyncio.TimeoutError\<close> that aiohttp raises when \<^verbatim>\<open>ClientTimeout(total=...)\<close>
  expires; \<open>OtherException n\<close> is any other instance of \<^verbatim>\<open>Exception\<close>, of class
  name \<open>n\<close>.
\<close>

datatype exn =
    IndexError
  | KeyError string
  | UnboundLocalError
  | ZeroDivisionError
  | RequestsTimeout
  | AsyncioTimeoutError
  | OtherException string

text \<open>\<^verbatim>\<open>type(e).__name__\<close>\<close>

fun type_name :: "exn \<Rightarrow> string" where
  "type_name IndexError = ''IndexError''"
| "type_name (KeyError k) = ''KeyError''"
| "type_name UnboundLocalError = ''UnboundLocalError''"
| "type_name ZeroDivisionError = ''ZeroDivisionError''"
| "type_name RequestsTimeout = ''Timeout''"
| "type_name AsyncioTimeoutError = ''TimeoutError''"
| "type_name (OtherException n) = n"

text \<open>Whether \<^verbatim>\<open>except requests.exceptions.Timeout\<close> catches the exception.\<close>

fun is_requests_timeout :: "exn \<Rightarrow> bool" where
  "is_requests_timeout RequestsTimeout = True"
| "is_requests_timeout e = False"

text \<open>
  A payload of the configured list. A payload that is not a string is known to the
  program by three observations only: its \<^verbatim>\<open>str()\<close> text, its \<^verbatim>\<open>json.dumps\<close>
  text and its truth value. \<open>PNone\<close> is Python's \<^verbatim>\<open>None\<close>.
\<close>

datatype payload =
    PNone
  | PStr string
  | PJson (py_repr: string) (json_text: string) (truth: bool)

text \<open>\<^verbatim>\<open>if payload:\<close>\<close>

fun payload_truthy :: "payload \<Rightarrow> bool" where
  "payload_truthy PNone = False"
| "payload_truthy (PStr s) = (s \<noteq> [])"
| "payload_truthy (PJson r j t) = t"

text \<open>\<^verbatim>\<open>str(payload)\<close>\<close>

fun payload_str :: "payload \<Rightarrow> string" where
  "payload_str PNone = ''None''"
| "payload_str (PStr s) = s"
| "payload_str (PJson r j t) = r"

text \<open>\<^verbatim>\<open>payload if isinstance(payload, str) else json.dumps(payload)\<close>\<close>

fun payload_data :: "payload \<Rightarrow> string" where
  "payload_data PNone = ''null''"
| "payload_data (PStr s) = s"
| "payload_data (PJson r j t) = j"

text \<open>
  \<^verbatim>\<open>str.upper\<close>, on the UTF-8 bytes of the string. ASCII letters go to their capitals.
  Ten more characters go to ASCII capitals and are written out: sharp s (to \<^verbatim>\<open>SS\<close>),
  dotless i (to \<^verbatim>\<open>I\<close>), long s (to \<^verbatim>\<open>S\<close>) and the ligatures U+FB00 to U+FB06
  (to \<^verbatim>\<open>FF\<close>, \<^verbatim>\<open>FI\<close>, \<^verbatim>\<open>FL\<close>, \<^verbatim>\<open>FFI\<close>, \<^verbatim>\<open>FFL\<close>, \<^verbatim>\<open>ST\<close>, \<^verbatim>\<open>ST\<close>).
  Every other character has a capital that is not all ASCII; its bytes are kept, which
  changes no comparison of the result with an ASCII word such as \<^verbatim>\<open>'GET'\<close>.
\<close>

definition upper_char :: "char \<Rightarrow> char" where
  "upper_char c =
     (let n = (of_char c :: nat) in if 97 \<le> n \<and> n \<le> 122 then char_of (n - 32) else c)"

text \<open>The capital of a ligature, by the last byte of its encoding \<^verbatim>\<open>EF AC 80..86\<close>.\<close>

definition ligature_upper :: "char \<Rightarrow> string option" where
  "ligature_upper c =
     (if c = CHR 0x80 then Some ''FF''
      else if c = CHR 0x81 then Some ''FI''
      else if c = CHR 0x82 then Some ''FL''
      else if c = CHR 0x83 then Some ''FFI''
      else if c = CHR 0x84 then Some ''FFL''
      else if c = CHR 0x85 then Some ''ST''
      else if c = CHR 0x86 then Some ''ST''
      else None)"

fun upper :: "string \<Rightarrow> string" where
  "upper [] = []"
| "upper (c # cs) =
     (if c = CHR 0xC3 \<and> take 1 cs = [CHR 0x9F] then ''SS'' @ upper (drop 1 cs)
      else if c = CHR 0xC4 \<and> take 1 cs = [CHR 0xB1] then ''I'' @ upper (drop 1 cs)
      else if c = CHR 0xC5 \<and> take 1 cs = [CHR 0xBF] then ''S'' @ upper (drop 1 cs)
      else if c = CHR 0xEF \<and> take 1 cs = [CHR 0xAC] \<and>
              (case drop 1 cs of [] \<Rightarrow> False | b # bs \<Rightarrow> ligature_upper b \<noteq> None)
        then the (ligature_upper (hd (drop 1 cs))) @ upper (drop 2 cs)
      else upper_char c # upper cs)"

declare upper.simps [simp del]

text \<open>\<^verbatim>\<open>str\<close> of an integer, in decimal.\<close>

definition digit :: "nat \<Rightarrow> char" where
  "digit n = char_of (48 + n)"

fun str_nat :: "nat \<Rightarrow> string" where
  "str_nat n = (if n < 10 then [digit n] else str_nat (n div 10) @ [digit (n mod 10)])"

declare str_nat.simps [simp del]

definition str_int :: "int \<Rightarrow> string" where
  "str_int i = (if i < 0 then CHR ''-'' # str_nat (nat (- i)) else str_nat (nat i))"

text \<open>
  \<^verbatim>\<open>random.choice(seq)\<close> with the draw \<open>i\<close>: an empty sequence raises
  \<^verbatim>\<open>IndexError\<close>.
\<close>

definition choice :: "'a list \<Rightarrow> nat \<Rightarrow> exn + 'a" where
  "choice xs i = (if xs = [] then Inl IndexError else Inr (xs ! (i mod length xs)))"

text \<open>\<^verbatim>\<open>random.randint(1, 255)\<close> with the draw \<open>i\<close>.\<close>

definition randint_1_255 :: "nat \<Rightarrow> int" where
  "randint_1_255 i = 1 + int (i mod 255)"

text \<open>\<^verbatim>\<open>random.uniform(a, b)\<close> is \<^verbatim>\<open>a + (b - a) * random()\<close>, with the draw \<open>u\<close>.\<close>

definition uniform :: "real \<Rightarrow> real \<Rightarrow> real \<Rightarrow> real" where
  "uniform a b u = a + (b - a) * u"

subsection \<open>Dictionaries\<close>

type_synonym ('k, 'v) dict = "('k \<times> 'v) list"

text \<open>\<^verbatim>\<open>d[k] = v\<close> is \<^const>\<open>AList.update\<close>; \<^verbatim>\<open>d.update(other)\<close> sets every
  item of \<open>other\<close> in turn.\<close>

definition dict_update :: "('k, 'v) dict \<Rightarrow> ('k, 'v) dict \<Rightarrow> ('k, 'v) dict" where
  "dict_update d other = fold (\<lambda>kv. AList.update (fst kv) (snd kv)) other d"

text \<open>\<^verbatim>\<open>d.get(k, 0)\<close>\<close>

definition get0 :: "('k, int) dict \<Rightarrow> 'k \<Rightarrow> int" where
  "get0 d k = (case map_of d k of None \<Rightarrow> 0 | Some v \<Rightarrow> v)"

text \<open>\<^verbatim>\<open>d[k] = d.get(k, 0) + 1\<close>\<close>

definition bump :: "('k, int) dict \<Rightarrow> 'k \<Rightarrow> ('k, int) dict" where
  "bump d k = AList.update k (get0 d k + 1) d"

subsection \<open>Configuration, statistics, requests\<close>

text \<open>The attributes \<^verbatim>\<open>HTTPStorm.__init__\<close> takes from the configuration.\<close>

record config =
  url :: string
  duration :: int
  requests :: int
  threads :: int
  rps :: int
  "method" :: string
  headers :: "(string, string) dict"
  payloads :: "payload list"
  user_agents :: "string list"
  proxies :: "string list"
  stealth :: bool
  random_delay :: bool
  verify_ssl :: bool
  timeout :: real

text \<open>\<^verbatim>\<open>self.stats\<close>\<close>

record stats =
  total_requests :: int
  successful :: int
  failed :: int
  timeouts :: int
  status_codes :: "(string, int) dict"
  response_times :: "real list"
  errors :: "(string, int) dict"
  bytes_sent :: int
  bytes_received :: int
  start_time :: real
  rps_history :: "real list"

text \<open>
  What is handed to the HTTP library for one exchange. A keyword argument that the call
  does not pass is \<open>None\<close>; \<^verbatim>\<open>proxies=None\<close> and no \<^verbatim>\<open>proxies\<close> are the same to
  the library.
\<close>

record request =
  r_method :: string
  r_url :: string
  r_headers :: "(string, string) dict"
  r_data :: "string option"
  r_proxies :: "(string, string) dict option"
  r_timeout :: real
  r_verify :: "bool option"

text \<open>
  The mutable part of an \<^verbatim>\<open>HTTPStorm\<close>, with the world around it: the wall clock
  \<open>now\<close> and \<open>sent\<close>, the requests handed to the HTTP library so far, in order.
\<close>

record storm =
  stats :: stats
  running :: bool
  now :: real
  sent :: "request list"

text \<open>The answer of the network: a response (status code, length of the body) or an
  exception.\<close>

datatype outcome = Response int nat | Raises exn

text \<open>
  The inputs of one attempt: the draws of \<^verbatim>\<open>random\<close> in the order the program makes
  them, the network's answer to the request sent, and the time the exchange takes.
\<close>

record env =
  ua_draw :: nat
  accept_draw :: nat
  language_draw :: nat
  connection_draw :: nat
  cache_draw :: nat
  xff_draw :: real
  xff_ip :: "nat \<times> nat \<times> nat \<times> nat"
  real_ip_draw :: real
  real_ip :: "nat \<times> nat \<times> nat \<times> nat"
  dnt_draw :: real
  payload_draw :: nat
  proxy_draw :: nat
  delay_draw :: real
  net :: "request \<Rightarrow> outcome"
  latency :: real

subsection \<open>Building the headers (lines 57-94)\<close>

text \<open>An element of a sequence that is not empty, by the draw \<open>i\<close>.\<close>

definition pick :: "'a list \<Rightarrow> nat \<Rightarrow> 'a" where
  "pick xs i = xs ! (i mod length xs)"

definition accept_options :: "string list" where
  "accept_options =
     [''text/html,application/xhtml+xml,application/xml;q=0.9,*/*;q=0.8'',
      ''application/json,text/plain,*/*'',
      ''*/*'']"

definition language_options :: "string list" where
  "language_options =
     [''en-US,en;q=0.9'', ''es-ES,es;q=0.9'', ''fr-FR,fr;q=0.9'',
      ''de-DE,de;q=0.9'', ''zh-CN,zh;q=0.9'']"

definition connection_options :: "string list" where
  "connection_options = [''keep-alive'', ''close'']"

definition cache_options :: "string list" where
  "cache_options = [''no-cache'', ''max-age=0'', ''no-store'']"

text \<open>The f-string of lines 82 and 84: four \<^verbatim>\<open>randint(1, 255)\<close> joined by dots.\<close>

definition ip_string :: "nat \<times> nat \<times> nat \<times> nat \<Rightarrow> string" where
  "ip_string q =
     (case q of (a, b, c, d) \<Rightarrow>
        str_int (randint_1_255 a) @ ''.'' @ str_int (randint_1_255 b) @ ''.'' @
        str_int (randint_1_255 c) @ ''.'' @ str_int (randint_1_255 d))"

text \<open>The dictionary literal of lines 59-73, once the user agent is chosen.\<close>

definition base_headers :: "string \<Rightarrow> env \<Rightarrow> (string, string) dict" where
  "base_headers ua e =
     [(''User-Agent'', ua),
      (''Accept'', pick accept_options (accept_draw e)),
      (''Accept-Language'', pick language_options (language_draw e)),
      (''Accept-Encoding'', ''gzip, deflate, br''),
      (''Connection'', pick connection_options (connection_draw e)),
      (''Cache-Control'', pick cache_options (cache_draw e))]"

text \<open>Lines 80-86: the three draws, each against its own threshold.\<close>

definition stealth_headers :: "env \<Rightarrow> (string, string) dict \<Rightarrow> (string, string) dict" where
  "stealth_headers e h =
     (let h1 = (if xff_draw e < 0.3
                then AList.update ''X-Forwarded-For'' (ip_string (xff_ip e)) h else h);
          h2 = (if real_ip_draw e < 0.2
                then AList.update ''X-Real-IP'' (ip_string (real_ip e)) h1 else h1)
      in if dnt_draw e < 0.4 then AList.update ''DNT'' ''1'' h2 else h2)"

definition get_random_headers :: "config \<Rightarrow> env \<Rightarrow> exn + (string, string) dict" where
  "get_random_headers cfg e =
     (case choice (user_agents cfg) (ua_draw e) of
        Inl x \<Rightarrow> Inl x
      | Inr ua \<Rightarrow>
          (let h0 = base_headers ua e;
               h1 = (if headers cfg \<noteq> [] then dict_update h0 (headers cfg) else h0)
           in Inr (if stealth cfg then stealth_headers e h1 else h1)))"

definition get_random_payload :: "config \<Rightarrow> env \<Rightarrow> payload" where
  "get_random_payload cfg e =
     (if payloads cfg = [] then PNone else pick (payloads cfg) (payload_draw e))"

subsection \<open>One attempt in thread mode (lines 96-166)\<close>

text \<open>The value \<^verbatim>\<open>make_request\<close> returns: the dictionary of a completed exchange
  (status, time, size), \<^verbatim>\<open>{'error': 'timeout'}\<close>, or \<^verbatim>\<open>{'error': str(e)}\<close>, kept
  as the exception.\<close>

datatype result = Completed int real nat | ErrorTimeout | ErrorOther exn

text \<open>Line 104.\<close>

definition random_proxy :: "config \<Rightarrow> env \<Rightarrow> string option" where
  "random_proxy cfg e =
     (if proxies cfg \<noteq> [] then Some (pick (proxies cfg) (proxy_draw e)) else None)"

text \<open>\<^verbatim>\<open>{'http': proxy, 'https': proxy} if proxy else None\<close>\<close>

definition proxies_arg :: "string option \<Rightarrow> (string, string) dict option" where
  "proxies_arg proxy =
     (case proxy of
        None \<Rightarrow> None
      | Some p \<Rightarrow> if p \<noteq> [] then Some [(''http'', p), (''https'', p)] else None)"

text \<open>
  Lines 112-128: the call of \<^verbatim>\<open>session.get\<close> or \<^verbatim>\<open>session.post\<close>. For any other
  method neither branch runs, no request is sent and \<^verbatim>\<open>response\<close> stays unbound:
  \<open>None\<close>.
\<close>

definition sent_request ::
  "config \<Rightarrow> (string, string) dict \<Rightarrow> payload \<Rightarrow> string option \<Rightarrow> request option" where
  "sent_request cfg hdrs payload proxy =
     (if upper (method cfg) = ''GET'' then
        Some \<lparr>r_method = ''GET'', r_url = url cfg, r_headers = hdrs, r_data = None,
              r_proxies = proxies_arg proxy, r_timeout = timeout cfg,
              r_verify = Some (verify_ssl cfg)\<rparr>
      else if upper (method cfg) = ''POST'' then
        Some \<lparr>r_method = ''POST'', r_url = url cfg, r_headers = hdrs,
              r_data = Some (payload_data payload),
              r_proxies = proxies_arg proxy, r_timeout = timeout cfg,
              r_verify = Some (verify_ssl cfg)\<rparr>
      else None)"

text \<open>Lines 133-134, the first two statements under the lock.\<close>

definition count_attempt :: "real \<Rightarrow> stats \<Rightarrow> stats" where
  "count_attempt response_time st =
     st\<lparr>total_requests := total_requests st + 1,
        response_times := response_times st @ [response_time]\<rparr>"

text \<open>Lines 135-145, the rest of the block, with the response at hand.\<close>

definition count_response :: "payload \<Rightarrow> int \<Rightarrow> nat \<Rightarrow> stats \<Rightarrow> stats" where
  "count_response payload code len st =
     (let st1 = st\<lparr>bytes_received := bytes_received st + int len\<rparr>;
          st2 = (if payload_truthy payload
                 then st1\<lparr>bytes_sent := bytes_sent st1 + int (length (payload_str payload))\<rparr>
                 else st1);
          st3 = (if code < 400 then st2\<lparr>successful := successful st2 + 1\<rparr>
                 else st2\<lparr>failed := failed st2 + 1\<rparr>)
      in st3\<lparr>status_codes := bump (status_codes st3) (str_int code)\<rparr>)"

text \<open>Lines 154-157.\<close>

definition count_timeout :: "stats \<Rightarrow> stats" where
  "count_timeout st =
     st\<lparr>total_requests := total_requests st + 1,
        timeouts := timeouts st + 1,
        failed := failed st + 1\<rparr>"

text \<open>Lines 161-165 and 226-230.\<close>

definition count_error :: "exn \<Rightarrow> stats \<Rightarrow> stats" where
  "count_error x st =
     st\<lparr>total_requests := total_requests st + 1,
        failed := failed st + 1,
        errors := bump (errors st) (type_name x)\<rparr>"

text \<open>
  The body of the \<^verbatim>\<open>try\<close> (lines 102-151): its value or the exception that leaves
  it, and the state at that point. What was written to the statistics before an
  exception stays written.
\<close>

definition try_body :: "config \<Rightarrow> env \<Rightarrow> storm \<Rightarrow> (exn + result) \<times> storm" where
  "try_body cfg e s =
     (case get_random_headers cfg e of
        Inl x \<Rightarrow> (Inl x, s)
      | Inr hdrs \<Rightarrow>
          (let payload = get_random_payload cfg e;
               proxy = random_proxy cfg e;
               s1 = (if random_delay cfg
                     then s\<lparr>now := now s + uniform 0.01 0.5 (delay_draw e)\<rparr> else s);
               start = now s1
           in case sent_request cfg hdrs payload proxy of
                None \<Rightarrow>
                  (Inl UnboundLocalError,
                   s1\<lparr>stats := count_attempt (now s1 - start) (stats s1)\<rparr>)
              | Some rq \<Rightarrow>
                  (let s2 = s1\<lparr>now := now s1 + latency e, sent := sent s1 @ [rq]\<rparr>
                   in case net e rq of
                        Raises x \<Rightarrow> (Inl x, s2)
                      | Response code len \<Rightarrow>
                          (let response_time = now s2 - start
                           in (Inr (Completed code response_time len),
                               s2\<lparr>stats := count_response payload code len
                                    (count_attempt response_time (stats s2))\<rparr>)))))"

definition make_request :: "config \<Rightarrow> env \<Rightarrow> storm \<Rightarrow> result option \<times> storm" where
  "make_request cfg e s =
     (if \<not> running s then (None, s)
      else case try_body cfg e s of
             (Inr r, s') \<Rightarrow> (Some r, s')
           | (Inl x, s') \<Rightarrow>
               if is_requests_timeout x
               then (Some ErrorTimeout, s'\<lparr>stats := count_timeout (stats s')\<rparr>)
               else (Some (ErrorOther x), s'\<lparr>stats := count_error x (stats s')\<rparr>))"

subsection \<open>One attempt in async mode (lines 198-230)\<close>

text \<open>Line 208: \<^verbatim>\<open>session.get(self.url, headers=headers, timeout=self.timeout)\<close>.\<close>

definition async_request :: "config \<Rightarrow> (string, string) dict \<Rightarrow> request" where
  "async_request cfg hdrs =
     \<lparr>r_method = ''GET'', r_url = url cfg, r_headers = hdrs, r_data = None,
      r_proxies = None, r_timeout = timeout cfg, r_verify = None\<rparr>"

text \<open>Lines 213-223.\<close>

definition async_count_response :: "real \<Rightarrow> int \<Rightarrow> nat \<Rightarrow> stats \<Rightarrow> stats" where
  "async_count_response response_time code len st =
     (let st1 = st\<lparr>total_requests := total_requests st + 1,
                   response_times := response_times st @ [response_time],
                   bytes_received := bytes_received st + int len\<rparr>;
          st2 = (if code < 400 then st1\<lparr>successful := successful st1 + 1\<rparr>
                 else st1\<lparr>failed := failed st1 + 1\<rparr>)
      in st2\<lparr>status_codes := bump (status_codes st2) (str_int code)\<rparr>)"

text \<open>
  The worker once it holds the semaphore. The exchange covers the request and the read
  of the body; one handler takes every exception.
\<close>

definition async_worker :: "config \<Rightarrow> env \<Rightarrow> storm \<Rightarrow> storm" where
  "async_worker cfg e s =
     (case get_random_headers cfg e of
        Inl x \<Rightarrow> s\<lparr>stats := count_error x (stats s)\<rparr>
      | Inr hdrs \<Rightarrow>
          (let start = now s;
               s1 = (if random_delay cfg
                     then s\<lparr>now := now s + uniform 0.01 0.2 (delay_draw e)\<rparr> else s);
               s2 = s1\<lparr>now := now s1 + latency e,
                       sent := sent s1 @ [async_request cfg hdrs]\<rparr>
           in case net e (async_request cfg hdrs) of
                Raises x \<Rightarrow> s2\<lparr>stats := count_error x (stats s2)\<rparr>
              | Response code len \<Rightarrow>
                  s2\<lparr>stats := async_count_response (now s2 - start) code len (stats s2)\<rparr>))"

subsection \<open>Sequences of attempts\<close>

text \<open>A sequence of calls of \<^verbatim>\<open>make_request\<close>, one for each element of \<open>es\<close>.\<close>

definition make_requests :: "config \<Rightarrow> env list \<Rightarrow> storm \<Rightarrow> storm" where
  "make_requests cfg es s = fold (\<lambda>e s'. snd (make_request cfg e s')) es s"

text \<open>A sequence of completed \<^verbatim>\<open>async_worker\<close> tasks.\<close>

definition async_workers :: "config \<Rightarrow> env list \<Rightarrow> storm \<Rightarrow> storm" where
  "async_workers cfg es s = fold (async_worker cfg) es s"

subsection \<open>The constructor and the command line (lines 23-55, 436-494)\<close>

text \<open>
  The configuration mapping handed to \<^verbatim>\<open>HTTPStorm\<close>: a key is absent (\<open>None\<close>) or
  holds a value of the type the program uses it at.
\<close>

record config_mapping =
  m_url :: "string option"
  m_duration :: "int option"
  m_requests :: "int option"
  m_threads :: "int option"
  m_rps :: "int option"
  m_method :: "string option"
  m_headers :: "(string, string) dict option"
  m_payloads :: "payload list option"
  m_user_agents :: "string list option"
  m_proxies :: "string list option"
  m_stealth :: "bool option"
  m_random_delay :: "bool option"
  m_verify_ssl :: "bool option"
  m_timeout :: "real option"

text \<open>\<^verbatim>\<open>config[k]\<close>: a missing key raises \<^verbatim>\<open>KeyError\<close>.\<close>

definition subscript :: "string \<Rightarrow> 'a option \<Rightarrow> exn + 'a" where
  "subscript k v = (case v of None \<Rightarrow> Inl (KeyError k) | Some x \<Rightarrow> Inr x)"

text \<open>\<^verbatim>\<open>config.get(k, default)\<close>\<close>

definition get_default :: "'a option \<Rightarrow> 'a \<Rightarrow> 'a" where
  "get_default v d = (case v of None \<Rightarrow> d | Some x \<Rightarrow> x)"

text \<open>Sequencing of statements that may raise: the first exception ends the block.\<close>

definition and_then :: "exn + 'a \<Rightarrow> ('a \<Rightarrow> exn + 'b) \<Rightarrow> exn + 'b" where
  "and_then v f = (case v of Inl x \<Rightarrow> Inl x | Inr a \<Rightarrow> f a)"

text \<open>Lines 24-37, in the order of the assignments.\<close>

definition init :: "config_mapping \<Rightarrow> exn + config" where
  "init m =
     and_then (subscript ''url'' (m_url m)) (\<lambda>u.
     and_then (subscript ''duration'' (m_duration m)) (\<lambda>d.
     and_then (subscript ''threads'' (m_threads m)) (\<lambda>t.
     and_then (subscript ''rps'' (m_rps m)) (\<lambda>r.
     and_then (subscript ''method'' (m_method m)) (\<lambda>me.
     and_then (subscript ''headers'' (m_headers m)) (\<lambda>h.
     and_then (subscript ''payloads'' (m_payloads m)) (\<lambda>p.
     and_then (subscript ''user_agents'' (m_user_agents m)) (\<lambda>ua.
     and_then (subscript ''proxies'' (m_proxies m)) (\<lambda>px.
       Inr \<lparr>url = u, duration = d, requests = get_default (m_requests m) 0,
            threads = t, rps = r, method = me, headers = h, payloads = p,
            user_agents = ua, proxies = px,
            stealth = get_default (m_stealth m) False,
            random_delay = get_default (m_random_delay m) False,
            verify_ssl = get_default (m_verify_ssl m) False,
            timeout = get_default (m_timeout m) 10\<rparr>)))))))))"

text \<open>Lines 40-52.\<close>

definition new_stats :: stats where
  "new_stats =
     \<lparr>total_requests = 0, successful = 0, failed = 0, timeouts = 0, status_codes = [],
      response_times = [], errors = [], bytes_sent = 0, bytes_received = 0,
      start_time = 0, rps_history = []\<rparr>"

text \<open>The parsed command line.\<close>

record args =
  a_url :: string
  a_duration :: int
  a_requests :: int
  a_threads :: int
  a_rps :: int
  a_method :: string
  a_timeout :: real
  a_use_async :: bool
  a_stealth :: bool
  a_random_delay :: bool
  a_no_ssl_verify :: bool

definition default_user_agents :: "string list" where
  "default_user_agents =
     [''Mozilla/5.0 (Windows NT 10.0; Win64; x64) AppleWebKit/537.36 (KHTML, like Gecko) Chrome/91.0.4472.124 Safari/537.36'',
      ''Mozilla/5.0 (Macintosh; Intel Mac OS X 10_15_7) AppleWebKit/605.1.15 (KHTML, like Gecko) Version/14.1.1 Safari/605.1.15'',
      ''Mozilla/5.0 (X11; Linux x86_64) AppleWebKit/537.36 (KHTML, like Gecko) Chrome/91.0.4472.124 Safari/537.36'',
      ''Mozilla/5.0 (Windows NT 10.0; Win64; x64; rv:89.0) Gecko/20100101 Firefox/89.0'',
      ''Mozilla/5.0 (iPhone; CPU iPhone OS 14_6 like Mac OS X) AppleWebKit/605.1.15 (KHTML, like Gecko) Version/14.0 Mobile/15E148 Safari/604.1'']"

text \<open>\<^verbatim>\<open>config.update(file_config)\<close>: the keys of the file replace those of the base.\<close>

definition override :: "'a option \<Rightarrow> 'a option \<Rightarrow> 'a option" where
  "override base file = (case file of None \<Rightarrow> base | Some v \<Rightarrow> Some v)"

definition mapping_update :: "config_mapping \<Rightarrow> config_mapping \<Rightarrow> config_mapping" where
  "mapping_update c f =
     \<lparr>m_url = override (m_url c) (m_url f),
      m_duration = override (m_duration c) (m_duration f),
      m_requests = override (m_requests c) (m_requests f),
      m_threads = override (m_threads c) (m_threads f),
      m_rps = override (m_rps c) (m_rps f),
      m_method = override (m_method c) (m_method f),
      m_headers = override (m_headers c) (m_headers f),
      m_payloads = override (m_payloads c) (m_payloads f),
      m_user_agents = override (m_user_agents c) (m_user_agents f),
      m_proxies = override (m_proxies c) (m_proxies f),
      m_stealth = override (m_stealth c) (m_stealth f),
      m_random_delay = override (m_random_delay c) (m_random_delay f),
      m_verify_ssl = override (m_verify_ssl c) (m_verify_ssl f),
      m_timeout = override (m_timeout c) (m_timeout f)\<rparr>"

text \<open>Lines 454-456: \<^verbatim>\<open>main\<close> goes on only with such a URL.\<close>

definition url_accepted :: "string \<Rightarrow> bool" where
  "url_accepted u = (take 7 u = ''http://'' \<or> take 8 u = ''https://'')"

text \<open>
  Lines 468-490: the mapping \<^verbatim>\<open>main\<close> hands to \<^verbatim>\<open>HTTPStorm\<close>. \<open>file\<close> is what
  \<^verbatim>\<open>load_config\<close> returned when \<^verbatim>\<open>--config\<close> was given.
\<close>

definition main_config :: "args \<Rightarrow> config_mapping option \<Rightarrow> config_mapping" where
  "main_config a file =
     (let config =
            \<lparr>m_url = Some (a_url a), m_duration = Some (a_duration a),
             m_requests = Some (a_requests a), m_threads = Some (a_threads a),
             m_rps = Some (a_rps a), m_method = Some (a_method a),
             m_headers = Some [], m_payloads = Some [],
             m_user_agents = Some default_user_agents, m_proxies = Some [],
             m_stealth = Some (a_stealth a), m_random_delay = Some (a_random_delay a),
             m_verify_ssl = Some (\<not> a_no_ssl_verify a), m_timeout = Some (a_timeout a)\<rparr>
      in case file of
           None \<Rightarrow> config
         | Some file_config \<Rightarrow> mapping_update config (file_config\<lparr>m_url := Some (a_url a)\<rparr>))"

subsection \<open>The final report (lines 390-422)\<close>

text \<open>\<^verbatim>\<open>a / b\<close>\<close>

definition py_div :: "real \<Rightarrow> real \<Rightarrow> exn + real" where
  "py_div a b = (if b = 0 then Inl ZeroDivisionError else Inr (a / b))"

text \<open>\<^verbatim>\<open>statistics.mean\<close> and \<^verbatim>\<open>statistics.median\<close> of a list that is not
  empty.\<close>

definition mean :: "real list \<Rightarrow> real" where
  "mean xs = sum_list xs / real (length xs)"

definition median :: "real list \<Rightarrow> real" where
  "median xs =
     (let ys = sort xs; n = length ys
      in if n mod 2 = 1 then ys ! (n div 2)
         else (ys ! (n div 2 - 1) + ys ! (n div 2)) / 2)"

text \<open>The numbers the report prints; their layout in the banner is left out.\<close>

record report =
  rep_elapsed :: real
  rep_total :: int
  rep_avg_rps :: real
  rep_success_rate :: real
  rep_avg_response :: real
  rep_median_response :: real
  rep_total_data :: real
  rep_verdict :: string

datatype printed = Message string | Report report

text \<open>The text of line 394; the first three bytes are the cross mark.\<close>

definition no_requests_message :: string where
  "no_requests_message = [CHR 0xE2, CHR 0x9D, CHR 0x8C] @ '' No requests completed''"

definition print_final_report :: "stats \<Rightarrow> real \<Rightarrow> exn + printed" where
  "print_final_report st t =
     (let total = total_requests st
      in if total = 0 then Inr (Message no_requests_message)
         else
           (let elapsed = t - start_time st
            in case py_div (real_of_int (successful st)) (real_of_int total) of
                 Inl x \<Rightarrow> Inl x
               | Inr q \<Rightarrow>
                   (case (if elapsed > 0 then py_div (real_of_int total) elapsed else Inr 0) of
                      Inl x \<Rightarrow> Inl x
                    | Inr avg_rps \<Rightarrow>
                        (let success_rate = q * 100;
                             avg_response =
                               (if response_times st \<noteq> [] then mean (response_times st) else 0);
                             median_response =
                               (if response_times st \<noteq> [] then median (response_times st) else 0);
                             total_data =
                               real_of_int (bytes_sent st + bytes_received st) / 1024 / 1024
                         in Inr (Report
                              \<lparr>rep_elapsed = elapsed, rep_total = total, rep_avg_rps = avg_rps,
                               rep_success_rate = success_rate,
                               rep_avg_response = avg_response,
                               rep_median_response = median_response,
                               rep_total_data = total_data,
                               rep_verdict =
                                 (if success_rate > 80 then ''YES''
                                  else if success_rate > 50 then ''PARTIAL''
                                  else ''DEFENDED'')\<rparr>)))))"

subsection \<open>The run: workers, tasks and the stop flag (lines 168-196, 232-258, 318-388)\<close>

text \<open>
  A run is a sequence of events on the shared state, one for each point where a thread
  or task reads or writes it. A thread worker is at the head of its loop (\<open>AtGuard\<close>,
  line 184), past the two checks (\<open>Ready\<close>, lines 188-192), or out of the loop
  (\<open>Finished\<close>); so is the loop of \<^verbatim>\<open>async_storm\<close>. An attempt runs as one event: the
  writes to the statistics are made under the lock, and only they are shared.
  \<^verbatim>\<open>asyncio.Semaphore(self.threads)\<close> raises for a negative value, before the loop
  of \<^verbatim>\<open>async_storm\<close>, and lets no task through for zero. A task that is still
  pending when the loop of \<^verbatim>\<open>async_storm\<close> ends may or may not complete; the model
  lets it. The operator's interrupt reaches the handler of lines 384-386 while the stop
  flag is set: the handler clears the flag, and \<open>interrupted\<close> records that it ran. The
  interrupt ends \<^verbatim>\<open>run_until_complete\<close>, so nothing of the async loop or its tasks
  runs after it; worker threads run on until they read the flag. The monitor thread (lines
  260-316) prints and appends to \<^verbatim>\<open>rps_history\<close> only, and the progress line of
  \<^verbatim>\<open>worker_thread\<close> only prints: both are left out.
\<close>

datatype pc = AtGuard | Ready | Finished

datatype task = Pending | Done

record run =
  shared :: storm
  workers :: "pc list"
  loop :: pc
  tasks :: "task list"
  interrupted :: bool

datatype event =
    Guard nat
  | Issue nat env
  | LoopGuard
  | Spawn
  | Task nat env
  | Tick real
  | Timer
  | Join
  | Interrupt

text \<open>Lines 184-186 and 247-249: whether the body of the loop is entered.\<close>

definition keep_going :: "config \<Rightarrow> storm \<Rightarrow> bool" where
  "keep_going cfg s =
     (running s \<and> \<not> (requests cfg > 0 \<and> total_requests (stats s) \<ge> requests cfg))"

text \<open>Line 182. A worker exists only when \<open>threads\<close> is positive, so the inner division
  is by a positive number whenever the line runs with \<open>rps > 0\<close>.\<close>

definition pacing_delay :: "config \<Rightarrow> real" where
  "pacing_delay cfg =
     (if rps cfg > 0 then 1 / (real_of_int (rps cfg) / real_of_int (threads cfg)) else 0)"

text \<open>Lines 188-192: one pass of the body of \<^verbatim>\<open>worker_thread\<close>.\<close>

definition worker_body :: "config \<Rightarrow> env \<Rightarrow> storm \<Rightarrow> storm" where
  "worker_body cfg e s =
     (let s1 = (if rps cfg > 0 then s\<lparr>now := now s + pacing_delay cfg\<rparr> else s)
      in snd (make_request cfg e s1))"

text \<open>Lines 251-258: one pass of the body of the loop of \<^verbatim>\<open>async_storm\<close>.\<close>

definition spawn_body :: "config \<Rightarrow> task list \<Rightarrow> task list" where
  "spawn_body cfg ts =
     filter (\<lambda>t. t \<noteq> Done)
       (if int (length ts) < threads cfg * 20 then ts @ [Pending] else ts)"

text \<open>
  Lines 339-382. With \<open>requests > 0\<close> the stop flag is cleared at line 356, after the
  workers are joined or the async loop has returned. Otherwise a timer clears it:
  the main thread after \<^verbatim>\<open>time.sleep(self.duration)\<close> (lines 378-379) or the stop
  thread (lines 360-362); \<^verbatim>\<open>time.sleep\<close> raises for a negative duration, and then
  the flag is not cleared.
\<close>

definition timer_due :: "config \<Rightarrow> storm \<Rightarrow> bool" where
  "timer_due cfg s =
     (\<not> requests cfg > 0 \<and> running s \<and> 0 \<le> duration cfg \<and>
      now s - start_time (stats s) \<ge> real_of_int (duration cfg))"

definition joined :: "config \<Rightarrow> bool \<Rightarrow> run \<Rightarrow> bool" where
  "joined cfg use_async r =
     (requests cfg > 0 \<and> running (shared r) \<and>
      (if use_async then loop r = Finished else list_all (\<lambda>p. p = Finished) (workers r)))"

text \<open>One event; \<open>None\<close> when the event cannot happen in the state.\<close>

fun step :: "config \<Rightarrow> bool \<Rightarrow> event \<Rightarrow> run \<Rightarrow> run option" where
  "step cfg use_async (Guard i) r =
     (if \<not> use_async \<and> i < length (workers r) \<and> workers r ! i = AtGuard
      then Some (r\<lparr>workers :=
             (workers r)[i := (if keep_going cfg (shared r) then Ready else Finished)]\<rparr>)
      else None)"
| "step cfg use_async (Issue i e) r =
     (if \<not> use_async \<and> i < length (workers r) \<and> workers r ! i = Ready
      then Some (r\<lparr>shared := worker_body cfg e (shared r),
                   workers := (workers r)[i := AtGuard]\<rparr>)
      else None)"
| "step cfg use_async LoopGuard r =
     (if use_async \<and> \<not> interrupted r \<and> 0 \<le> threads cfg \<and> loop r = AtGuard
      then Some (r\<lparr>loop := (if keep_going cfg (shared r) then Ready else Finished)\<rparr>)
      else None)"
| "step cfg use_async Spawn r =
     (if use_async \<and> \<not> interrupted r \<and> 0 \<le> threads cfg \<and> loop r = Ready
      then Some (r\<lparr>shared := (shared r)\<lparr>now := now (shared r) + 0.001\<rparr>,
                   loop := AtGuard,
                   tasks := spawn_body cfg (tasks r)\<rparr>)
      else None)"
| "step cfg use_async (Task k e) r =
     (if use_async \<and> \<not> interrupted r \<and> 0 < threads cfg \<and> k < length (tasks r) \<and>
         tasks r ! k = Pending
      then Some (r\<lparr>shared := async_worker cfg e (shared r),
                   tasks := (tasks r)[k := Done]\<rparr>)
      else None)"
| "step cfg use_async (Tick d) r =
     (if 0 \<le> d then Some (r\<lparr>shared := (shared r)\<lparr>now := now (shared r) + d\<rparr>\<rparr>) else None)"
| "step cfg use_async Timer r =
     (if timer_due cfg (shared r)
      then Some (r\<lparr>shared := (shared r)\<lparr>running := False\<rparr>\<rparr>) else None)"
| "step cfg use_async Join r =
     (if joined cfg use_async r
      then Some (r\<lparr>shared := (shared r)\<lparr>running := False\<rparr>\<rparr>) else None)"
| "step cfg use_async Interrupt r =
     (if running (shared r)
      then Some (r\<lparr>shared := (shared r)\<lparr>running := False\<rparr>, interrupted := True\<rparr>)
      else None)"

primrec exec :: "config \<Rightarrow> bool \<Rightarrow> event list \<Rightarrow> run \<Rightarrow> run option" where
  "exec cfg use_async [] r = Some r"
| "exec cfg use_async (ev # evs) r =
     (case step cfg use_async ev r of
        None \<Rightarrow> None
      | Some r' \<Rightarrow> exec cfg use_async evs r')"

text \<open>Lines 320 and 339-376: the state in which the run starts, at time \<open>t\<close>.\<close>

definition start_storm :: "config \<Rightarrow> bool \<Rightarrow> real \<Rightarrow> run" where
  "start_storm cfg use_async t =
     \<lparr>shared = \<lparr>stats = new_stats\<lparr>start_time := t\<rparr>, running = True, now = t, sent = []\<rparr>,
      workers = (if use_async then [] else replicate (nat (threads cfg)) AtGuard),
      loop = AtGuard,
      tasks = [],
      interrupted = False\<rparr>"







subsection \<open>Concrete inputs\<close>

text \<open>The command line with every option at its default.\<close>

definition default_args :: args where
  "default_args =
     \<lparr>a_url = ''http://localhost:8080/'', a_duration = 10, a_requests = 0,
      a_threads = 50, a_rps = 0, a_method = ''GET'', a_timeout = 10,
      a_use_async = False, a_stealth = False, a_random_delay = False,
      a_no_ssl_verify = False\<rparr>"

text \<open>The attributes of the \<^verbatim>\<open>HTTPStorm\<close> built from it.\<close>

definition default_config :: config where
  "default_config =
     \<lparr>url = ''http://localhost:8080/'', duration = 10, requests = 0, threads = 50,
      rps = 0, method = ''GET'', headers = [], payloads = [],
      user_agents = default_user_agents, proxies = [], stealth = False,
      random_delay = False, verify_ssl = True, timeout = 10\<rparr>"

text \<open>A configuration file that sets nothing.\<close>

definition empty_file :: config_mapping where
  "empty_file =
     \<lparr>m_url = None, m_duration = None, m_requests = None, m_threads = None,
      m_rps = None, m_method = None, m_headers = None, m_payloads = None,
      m_user_agents = None, m_proxies = None, m_stealth = None,
      m_random_delay = None, m_verify_ssl = None, m_timeout = None\<rparr>"

text \<open>An attempt whose draws are all zero except the three stealth draws, which miss;
  the server answers 200 with a body of five bytes after a quarter of a second.\<close>

definition quiet_env :: env where
  "quiet_env =
     \<lparr>ua_draw = 0, accept_draw = 0, language_draw = 0, connection_draw = 0,
      cache_draw = 0, xff_draw = 0.9, xff_ip = (0, 0, 0, 0), real_ip_draw = 0.9,
      real_ip = (0, 0, 0, 0), dnt_draw = 0.9, payload_draw = 0, proxy_draw = 0,
      delay_draw = 0.5, net = (\<lambda>r. Response 200 5), latency = 0.25\<rparr>"

text \<open>A storm that has just been built, at time zero.\<close>

definition fresh :: storm where
  "fresh = \<lparr>stats = new_stats, running = True, now = 0, sent = []\<rparr>"

text \<open>The operator sets \<^verbatim>\<open>DNT\<close> and \<^verbatim>\<open>Accept\<close> and turns stealth on; of the three
  stealth draws only the one for \<^verbatim>\<open>DNT\<close> fires.\<close>

definition dnt_config :: config where
  "dnt_config =
     default_config\<lparr>stealth := True,
       headers := [(''DNT'', ''0''), (''Accept'', ''text/plain'')]\<rparr>"

definition dnt_env :: env where
  "dnt_env = quiet_env\<lparr>dnt_draw := 0.1\<rparr>"

text \<open>The same attempt answered by 404 with a body of nine bytes.\<close>

definition not_found_env :: env where
  "not_found_env = quiet_env\<lparr>net := (\<lambda>r. Response 404 9)\<rparr>"

text \<open>A configuration that asks for POST with a payload, through a proxy, without
  certificate verification.\<close>

definition post_config :: config where
  "post_config =
     default_config\<lparr>method := ''POST'', payloads := [PStr ''a=1''],
       proxies := [''http://127.0.0.1:3128''], verify_ssl := False\<rparr>"

text \<open>A configuration file that sets the method to PUT, and the attributes of the
  \<^verbatim>\<open>HTTPStorm\<close> that \<^verbatim>\<open>main\<close> builds from the default command line with it.\<close>

definition put_file :: config_mapping where
  "put_file = empty_file\<lparr>m_method := Some ''PUT''\<rparr>"

definition put_config :: config where
  "put_config = default_config\<lparr>method := ''PUT''\<rparr>"

text \<open>The exchange runs into the timeout.\<close>

definition requests_timeout_env :: env where
  "requests_timeout_env = quiet_env\<lparr>net := (\<lambda>r. Raises RequestsTimeout)\<rparr>"

definition asyncio_timeout_env :: env where
  "asyncio_timeout_env = quiet_env\<lparr>net := (\<lambda>r. Raises AsyncioTimeoutError)\<rparr>"

text \<open>The default configuration with \<^verbatim>\<open>--random-delay\<close>.\<close>

definition delay_config :: config where
  "delay_config = default_config\<lparr>random_delay := True\<rparr>"

text \<open>GET, with a payload list from the configuration file.\<close>

definition get_payload_config :: config where
  "get_payload_config = default_config\<lparr>payloads := [PStr ''a=1'']\<rparr>"




section \<open>Properties\<close>

subsection \<open>Evaluation of the concrete inputs\<close>

lemma upper_methods [simp]:
  "upper ''GET'' = ''GET''" "upper ''POST'' = ''POST''" "upper ''PUT'' = ''PUT''"
  by (simp_all add: upper.simps upper_char_def)

text \<open>A method written in small letters, or with the long s or the st ligature, is the
  same method to the program.\<close>

lemma upper_spellings:
  "upper ''get'' = ''GET''"
  "upper ''post'' = ''POST''"
  "upper [CHR ''p'', CHR ''o'', CHR 0xC5, CHR 0xBF, CHR ''t''] = ''POST''"
  "upper [CHR ''p'', CHR ''o'', CHR 0xEF, CHR 0xAC, CHR 0x86] = ''POST''"
  by code_simp+

lemma default_headers:
  "get_random_headers default_config quiet_env =
     Inr (base_headers (hd default_user_agents) quiet_env)"
  by (simp add: get_random_headers_def default_config_def choice_def
      default_user_agents_def quiet_env_def)

subsection \<open>Dictionaries\<close>

lemma dict_update_other_key:
  "k \<notin> fst ` set other \<Longrightarrow> map_of (dict_update d other) k = map_of d k"
  unfolding dict_update_def
  by (induction other arbitrary: d) (auto simp: AList.update_conv')

lemma dict_update_key:
  "distinct (map fst other) \<Longrightarrow> map_of other k = Some v \<Longrightarrow>
   map_of (dict_update d other) k = Some v"
proof (induction other arbitrary: d)
  case Nil
  then show ?case by simp
next
  case (Cons p ps)
  obtain k' v' where p: "p = (k', v')" by (cases p)
  have unroll: "dict_update d (p # ps) = dict_update (AList.update k' v' d) ps"
    by (simp add: dict_update_def p)
  show ?case
  proof (cases "k = k'")
    case True
    with Cons.prems p have "v' = v" and "k \<notin> fst ` set ps" by auto
    then show ?thesis
      by (simp add: unroll dict_update_other_key AList.update_conv' True)
  next
    case False
    with Cons.prems p have "distinct (map fst ps)" and "map_of ps k = Some v" by auto
    then show ?thesis
      using Cons.IH unroll by simp
  qed
qed

lemma get0_bump: "get0 (bump d k) k = get0 d k + 1"
  by (simp add: bump_def get0_def AList.update_conv')

lemma get0_bump_other: "k' \<noteq> k \<Longrightarrow> get0 (bump d k) k' = get0 d k'"
  by (simp add: bump_def get0_def AList.update_conv')

subsection \<open>Headers\<close>

lemma stealth_headers_lookup:
  "map_of (stealth_headers e h) k =
     (if k = ''DNT'' \<and> dnt_draw e < 0.4 then Some ''1''
      else if k = ''X-Real-IP'' \<and> real_ip_draw e < 0.2 then Some (ip_string (real_ip e))
      else if k = ''X-Forwarded-For'' \<and> xff_draw e < 0.3 then Some (ip_string (xff_ip e))
      else map_of h k)"
  by (simp add: stealth_headers_def Let_def AList.update_conv')

text \<open>
  Claim C5, as amended. Whenever \<^verbatim>\<open>get_random_headers\<close> returns, a key of the
  operator's custom headers maps to the operator's value, whatever the baseline draws
  are, unless stealth is on, the key is one of \<^verbatim>\<open>X-Forwarded-For\<close>, \<^verbatim>\<open>X-Real-IP\<close>
  and \<^verbatim>\<open>DNT\<close>, and the draw of that stealth header fires: the stealth headers are
  written after the custom ones (lines 76-86) and then the key maps to the stealth value.
\<close>

theorem custom_headers_precedence:
  assumes "get_random_headers cfg e = Inr h"
    and "distinct (map fst (headers cfg))"
    and "map_of (headers cfg) k = Some v"
  shows "map_of h k =
     (if stealth cfg \<and> k = ''DNT'' \<and> dnt_draw e < 0.4 then Some ''1''
      else if stealth cfg \<and> k = ''X-Real-IP'' \<and> real_ip_draw e < 0.2
        then Some (ip_string (real_ip e))
      else if stealth cfg \<and> k = ''X-Forwarded-For'' \<and> xff_draw e < 0.3
        then Some (ip_string (xff_ip e))
      else Some v)"
proof -
  from assms(1) obtain ua where ua: "choice (user_agents cfg) (ua_draw e) = Inr ua"
    by (auto simp: get_random_headers_def split: sum.splits)
  from assms(3) have ne: "headers cfg \<noteq> []" by auto
  define h1 where "h1 = dict_update (base_headers ua e) (headers cfg)"
  have h: "h = (if stealth cfg then stealth_headers e h1 else h1)"
    using assms(1) ua ne by (auto simp: get_random_headers_def h1_def Let_def)
  have "map_of h1 k = Some v"
    unfolding h1_def using assms(2,3) by (rule dict_update_key)
  then show ?thesis
    by (simp add: h stealth_headers_lookup)
qed

lemma dnt_headers:
  "get_random_headers dnt_config dnt_env =
     Inr [(''User-Agent'', hd default_user_agents),
          (''Accept'', ''text/plain''),
          (''Accept-Language'', ''en-US,en;q=0.9''),
          (''Accept-Encoding'', ''gzip, deflate, br''),
          (''Connection'', ''keep-alive''),
          (''Cache-Control'', ''no-cache''),
          (''DNT'', ''1'')]"
  by (simp add: get_random_headers_def dnt_config_def default_config_def choice_def
      default_user_agents_def dnt_env_def quiet_env_def base_headers_def pick_def
      accept_options_def language_options_def connection_options_def cache_options_def
      dict_update_def stealth_headers_def)

text \<open>The amended claim C5 at \<open>dnt_config\<close>: the operator's \<^verbatim>\<open>Accept\<close> replaces the
  drawn one.\<close>

theorem custom_headers_precedence_witness:
  "\<exists>h. get_random_headers dnt_config dnt_env = Inr h \<and>
       distinct (map fst (headers dnt_config)) \<and>
       map_of (headers dnt_config) ''Accept'' = Some ''text/plain'' \<and>
       map_of h ''Accept'' = Some ''text/plain''"
proof -
  have d: "distinct (map fst (headers dnt_config))"
    by (simp add: dnt_config_def)
  have a: "map_of (headers dnt_config) ''Accept'' = Some ''text/plain''"
    by (simp add: dnt_config_def)
  show ?thesis
    using custom_headers_precedence [OF dnt_headers d a] dnt_headers d a by simp
qed

text \<open>
  Claim C5 as stated fails: with stealth on and the \<^verbatim>\<open>DNT\<close> draw below 0.4, the
  operator's \<^verbatim>\<open>DNT: 0\<close> of \<open>dnt_config\<close> leaves \<^verbatim>\<open>get_random_headers\<close> as
  \<^verbatim>\<open>DNT: 1\<close>.
\<close>

theorem stealth_overrides_custom_header:
  "distinct (map fst (headers dnt_config)) \<and>
   map_of (headers dnt_config) ''DNT'' = Some ''0'' \<and>
   get_random_headers dnt_config dnt_env =
     Inr [(''User-Agent'', hd default_user_agents),
          (''Accept'', ''text/plain''),
          (''Accept-Language'', ''en-US,en;q=0.9''),
          (''Accept-Encoding'', ''gzip, deflate, br''),
          (''Connection'', ''keep-alive''),
          (''Cache-Control'', ''no-cache''),
          (''DNT'', ''1'')]"
  using dnt_headers by (simp add: dnt_config_def)

subsection \<open>One attempt\<close>

lemma make_request_response:
  assumes "running s" and "get_random_headers cfg e = Inr h"
    and "sent_request cfg h (get_random_payload cfg e) (random_proxy cfg e) = Some rq"
    and "net e rq = Response code len"
  shows "make_request cfg e s =
     (Some (Completed code (latency e) len),
      s\<lparr>now := now s + (if random_delay cfg then uniform 0.01 0.5 (delay_draw e) else 0)
                + latency e,
        sent := sent s @ [rq],
        stats := count_response (get_random_payload cfg e) code len
                   (count_attempt (latency e) (stats s))\<rparr>)"
  using assms by (simp add: make_request_def try_body_def Let_def)

lemma async_worker_response:
  assumes "get_random_headers cfg e = Inr h"
    and "net e (async_request cfg h) = Response code len"
  shows "async_worker cfg e s =
     s\<lparr>now := now s + (if random_delay cfg then uniform 0.01 0.2 (delay_draw e) else 0)
               + latency e,
       sent := sent s @ [async_request cfg h],
       stats := async_count_response
                  ((if random_delay cfg then uniform 0.01 0.2 (delay_draw e) else 0) + latency e)
                  code len (stats s)\<rparr>"
  using assms by (simp add: async_worker_def Let_def)

text \<open>
  Claim C6. In both dispatch modes, when the exchange brings back a response with status
  \<open>code\<close>, whatever the code, the attempt adds one to \<open>successful\<close> if \<open>code < 400\<close>
  and one to \<open>failed\<close> otherwise, never to both, and adds one to the bucket of
  \<open>status_codes\<close> under \<^verbatim>\<open>str(code)\<close>.
\<close>

theorem response_classified_by_status:
  "(running s \<and> get_random_headers cfg e = Inr h \<and>
    sent_request cfg h (get_random_payload cfg e) (random_proxy cfg e) = Some rq \<and>
    net e rq = Response code len \<longrightarrow>
      successful (stats (snd (make_request cfg e s))) =
        successful (stats s) + (if code < 400 then 1 else 0) \<and>
      failed (stats (snd (make_request cfg e s))) =
        failed (stats s) + (if code < 400 then 0 else 1) \<and>
      get0 (status_codes (stats (snd (make_request cfg e s)))) (str_int code) =
        get0 (status_codes (stats s)) (str_int code) + 1) \<and>
   (get_random_headers cfg e = Inr h \<and> net e (async_request cfg h) = Response code len \<longrightarrow>
      successful (stats (async_worker cfg e s)) =
        successful (stats s) + (if code < 400 then 1 else 0) \<and>
      failed (stats (async_worker cfg e s)) =
        failed (stats s) + (if code < 400 then 0 else 1) \<and>
      get0 (status_codes (stats (async_worker cfg e s))) (str_int code) =
        get0 (status_codes (stats s)) (str_int code) + 1)"
proof (intro conjI impI)
  assume "running s \<and> get_random_headers cfg e = Inr h \<and>
    sent_request cfg h (get_random_payload cfg e) (random_proxy cfg e) = Some rq \<and>
    net e rq = Response code len"
  then have m: "stats (snd (make_request cfg e s)) =
      count_response (get_random_payload cfg e) code len (count_attempt (latency e) (stats s))"
    by (simp add: make_request_response)
  show "successful (stats (snd (make_request cfg e s))) =
        successful (stats s) + (if code < 400 then 1 else 0)"
    unfolding m by (simp add: count_response_def count_attempt_def Let_def)
  show "failed (stats (snd (make_request cfg e s))) =
        failed (stats s) + (if code < 400 then 0 else 1)"
    unfolding m by (simp add: count_response_def count_attempt_def Let_def)
  show "get0 (status_codes (stats (snd (make_request cfg e s)))) (str_int code) =
        get0 (status_codes (stats s)) (str_int code) + 1"
    unfolding m by (simp add: count_response_def count_attempt_def Let_def get0_bump)
next
  assume "get_random_headers cfg e = Inr h \<and> net e (async_request cfg h) = Response code len"
  then have m: "stats (async_worker cfg e s) =
      async_count_response
        ((if random_delay cfg then uniform 0.01 0.2 (delay_draw e) else 0) + latency e)
        code len (stats s)"
    by (simp add: async_worker_response)
  show "successful (stats (async_worker cfg e s)) =
        successful (stats s) + (if code < 400 then 1 else 0)"
    unfolding m by (simp add: async_count_response_def Let_def)
  show "failed (stats (async_worker cfg e s)) =
        failed (stats s) + (if code < 400 then 0 else 1)"
    unfolding m by (simp add: async_count_response_def Let_def)
  show "get0 (status_codes (stats (async_worker cfg e s))) (str_int code) =
        get0 (status_codes (stats s)) (str_int code) + 1"
    unfolding m by (simp add: async_count_response_def Let_def get0_bump)
qed

lemma default_sent:
  "sent_request default_config h (get_random_payload default_config e)
       (random_proxy default_config e) =
     Some \<lparr>r_method = ''GET'', r_url = ''http://localhost:8080/'', r_headers = h,
           r_data = None, r_proxies = None, r_timeout = 10, r_verify = Some True\<rparr>"
  by (simp add: sent_request_def default_config_def random_proxy_def proxies_arg_def)

lemma not_found_headers:
  "get_random_headers default_config not_found_env =
     Inr (base_headers (hd default_user_agents) not_found_env)"
  by (simp add: get_random_headers_def default_config_def choice_def
      default_user_agents_def not_found_env_def quiet_env_def)

text \<open>Claim C6 at a 200 in thread mode and at a 404 in async mode.\<close>

theorem response_classified_by_status_witness:
  "successful (stats (snd (make_request default_config quiet_env fresh))) = 1 \<and>
   failed (stats (snd (make_request default_config quiet_env fresh))) = 0 \<and>
   get0 (status_codes (stats (snd (make_request default_config quiet_env fresh)))) ''200'' = 1 \<and>
   successful (stats (async_worker default_config not_found_env fresh)) = 0 \<and>
   failed (stats (async_worker default_config not_found_env fresh)) = 1 \<and>
   get0 (status_codes (stats (async_worker default_config not_found_env fresh))) ''404'' = 1"
proof -
  have r: "running fresh" by (simp add: fresh_def)
  have n: "net quiet_env rq = Response 200 5" for rq by (simp add: quiet_env_def)
  have n': "net not_found_env rq = Response 404 9" for rq by (simp add: not_found_env_def)
  have s200: "str_int 200 = ''200''" by code_simp
  have s404: "str_int 404 = ''404''" by code_simp
  have z: "successful (stats fresh) = 0" "failed (stats fresh) = 0"
    "get0 (status_codes (stats fresh)) k = 0" for k
    by (simp_all add: fresh_def new_stats_def get0_def)
  from response_classified_by_status
         [of fresh default_config quiet_env _ _ 200 5, THEN conjunct1, rule_format,
          OF conjI [OF r conjI [OF default_headers conjI [OF default_sent n]]]]
       response_classified_by_status
         [of fresh default_config not_found_env _ _ 404 9, THEN conjunct2, rule_format,
          OF conjI [OF not_found_headers n']]
  show ?thesis
    by (simp add: s200 s404 z)
qed

subsection \<open>The final report\<close>

text \<open>The report never raises: the division by the number of attempts is reached only
  when that number is not zero, the one by the elapsed time only when it is positive.\<close>

lemma print_final_report_returns:
  "\<exists>p. print_final_report st t = Inr p"
  by (simp add: print_final_report_def py_div_def Let_def)

text \<open>
  Claim C8. When \<open>total_requests\<close> is zero, \<^verbatim>\<open>print_final_report\<close> prints the
  no-requests message and returns: its output is that message alone, none of the
  report's numbers, and it is a normal return, not a \<^verbatim>\<open>ZeroDivisionError\<close>.
\<close>

theorem empty_run_report:
  "total_requests st = 0 \<Longrightarrow> print_final_report st t = Inr (Message no_requests_message)"
  by (simp add: print_final_report_def)

text \<open>Claim C8 at the statistics of a storm that has just been built.\<close>

theorem empty_run_report_witness:
  "total_requests new_stats = 0 \<and>
   print_final_report new_stats 3 = Inr (Message no_requests_message)"
proof -
  have z: "total_requests new_stats = 0" by (simp add: new_stats_def)
  from empty_run_report [OF z, of 3] z show ?thesis by simp
qed

subsection \<open>Async mode\<close>

lemma async_worker_bytes_sent:
  "bytes_sent (stats (async_worker cfg e s)) = bytes_sent (stats s)"
  by (simp add: async_worker_def count_error_def async_count_response_def Let_def
      split: sum.split outcome.split)

text \<open>What one attempt does, by what the headers and the network give: without headers
  nothing is sent; with them the one request of line 208 is sent and the answer to it
  is what the statistics record.\<close>

lemma async_worker_no_headers:
  "get_random_headers cfg e = Inl x \<Longrightarrow>
   async_worker cfg e s = s\<lparr>stats := count_error x (stats s)\<rparr>"
  by (simp add: async_worker_def)

lemma async_worker_raises:
  assumes "get_random_headers cfg e = Inr h"
    and "net e (async_request cfg h) = Raises x"
  shows "async_worker cfg e s =
     s\<lparr>now := now s + (if random_delay cfg then uniform 0.01 0.2 (delay_draw e) else 0)
               + latency e,
       sent := sent s @ [async_request cfg h],
       stats := count_error x (stats s)\<rparr>"
  using assms by (simp add: async_worker_def Let_def)

lemma async_worker_sent:
  "get_random_headers cfg e = Inr h \<Longrightarrow>
   sent (async_worker cfg e s) = sent s @ [async_request cfg h]"
  by (simp add: async_worker_def Let_def split: outcome.split)

lemma async_worker_sends_bare_get:
  "\<exists>new. sent (async_worker cfg e s) = sent s @ new \<and>
     (\<forall>rq \<in> set new. r_method rq = ''GET'' \<and> r_data rq = None \<and>
        r_proxies rq = None \<and> r_verify rq = None)"
proof (cases "get_random_headers cfg e")
  case (Inl x)
  then show ?thesis by (simp add: async_worker_no_headers)
next
  case (Inr h)
  then show ?thesis by (simp add: async_worker_sent async_request_def)
qed

lemma async_step_bytes_sent:
  "step cfg True ev r = Some r' \<Longrightarrow>
   bytes_sent (stats (shared r')) = bytes_sent (stats (shared r))"
  by (cases ev) (auto simp: async_worker_bytes_sent split: if_splits)

lemma async_step_sends_bare_gets:
  assumes "step cfg True ev r = Some r'"
  shows "\<exists>new. sent (shared r') = sent (shared r) @ new \<and>
     (\<forall>rq \<in> set new. r_method rq = ''GET'' \<and> r_data rq = None \<and>
        r_proxies rq = None \<and> r_verify rq = None)"
proof (cases ev)
  case (Task k e)
  with assms have "shared r' = async_worker cfg e (shared r)"
    by (auto split: if_splits)
  then show ?thesis
    using async_worker_sends_bare_get [of cfg e "shared r"] by simp
qed (use assms in \<open>auto split: if_splits\<close>)

lemma async_exec_bytes_sent:
  "exec cfg True evs r = Some r' \<Longrightarrow>
   bytes_sent (stats (shared r')) = bytes_sent (stats (shared r))"
proof (induction evs arbitrary: r)
  case Nil
  then show ?case by simp
next
  case (Cons ev evs)
  then obtain r1 where s: "step cfg True ev r = Some r1" and e: "exec cfg True evs r1 = Some r'"
    by (auto split: option.splits)
  from Cons.IH [OF e] async_step_bytes_sent [OF s] show ?case by simp
qed

lemma async_exec_sends_bare_gets:
  "exec cfg True evs r = Some r' \<Longrightarrow>
   \<exists>new. sent (shared r') = sent (shared r) @ new \<and>
     (\<forall>rq \<in> set new. r_method rq = ''GET'' \<and> r_data rq = None \<and>
        r_proxies rq = None \<and> r_verify rq = None)"
proof (induction evs arbitrary: r)
  case Nil
  then show ?case by simp
next
  case (Cons ev evs)
  then obtain r1 where s: "step cfg True ev r = Some r1" and e: "exec cfg True evs r1 = Some r'"
    by (auto split: option.splits)
  from async_step_sends_bare_gets [OF s] obtain new1
    where n1: "sent (shared r1) = sent (shared r) @ new1"
      and b1: "\<forall>rq \<in> set new1. r_method rq = ''GET'' \<and> r_data rq = None \<and>
        r_proxies rq = None \<and> r_verify rq = None"
    by blast
  from Cons.IH [OF e] obtain new2
    where n2: "sent (shared r') = sent (shared r1) @ new2"
      and b2: "\<forall>rq \<in> set new2. r_method rq = ''GET'' \<and> r_data rq = None \<and>
        r_proxies rq = None \<and> r_verify rq = None"
    by blast
  have "sent (shared r') = sent (shared r) @ (new1 @ new2)"
    by (simp add: n1 n2)
  moreover have "\<forall>rq \<in> set (new1 @ new2). r_method rq = ''GET'' \<and> r_data rq = None \<and>
        r_proxies rq = None \<and> r_verify rq = None"
    using b1 b2 by auto
  ultimately show ?case by blast
qed

lemma get_random_headers_net:
  "get_random_headers cfg (e\<lparr>net := n\<rparr>) = get_random_headers cfg e"
  by (simp add: get_random_headers_def base_headers_def stealth_headers_def Let_def
      split: sum.split)

lemma async_worker_net:
  assumes "\<forall>h. n (async_request cfg h) = n' (async_request cfg h)"
  shows "async_worker cfg (e\<lparr>net := n\<rparr>) s = async_worker cfg (e\<lparr>net := n'\<rparr>) s"
  using assms
  by (simp add: async_worker_def get_random_headers_net Let_def split: sum.split)

lemma get_random_headers_ignores:
  "get_random_headers (cfg\<lparr>method := m, payloads := ps, proxies := px, verify_ssl := v\<rparr>) e =
   get_random_headers cfg e"
  by (simp add: get_random_headers_def Let_def split: sum.split)

lemma async_request_ignores:
  "async_request (cfg\<lparr>method := m, payloads := ps, proxies := px, verify_ssl := v\<rparr>) h =
   async_request cfg h"
  by (simp add: async_request_def)

lemma async_worker_ignores:
  "async_worker (cfg\<lparr>method := m, payloads := ps, proxies := px, verify_ssl := v\<rparr>) e s =
   async_worker cfg e s"
  by (simp add: async_worker_def get_random_headers_ignores async_request_ignores Let_def
      split: sum.split)

text \<open>
  Claim C10. In async mode an attempt for which the headers are built hands exactly one
  request to the HTTP library, the one of line 208: a GET of the configured URL with those
  headers and without body, proxies or \<^verbatim>\<open>verify\<close> argument; the statistics record the
  network's answer to that request, a response or an exception; an attempt whose headers
  fail sends nothing. The worker asks the network about such requests only, and does the
  same whatever the configured method, payloads, proxies and TLS flag are. An attempt
  leaves \<open>bytes_sent\<close> as it was. A task of a run in async mode is such an attempt, and
  in every run in async mode \<open>bytes_sent\<close> stays as it was and every request sent is
  such a GET.
\<close>

theorem async_attempts_are_bare_gets:
  "(get_random_headers cfg e = Inr h \<longrightarrow>
      sent (async_worker cfg e s) = sent s @ [async_request cfg h] \<and>
      (net e (async_request cfg h) = Response code len \<longrightarrow>
         stats (async_worker cfg e s) =
           async_count_response
             ((if random_delay cfg then uniform 0.01 0.2 (delay_draw e) else 0) + latency e)
             code len (stats s)) \<and>
      (net e (async_request cfg h) = Raises x \<longrightarrow>
         stats (async_worker cfg e s) = count_error x (stats s))) \<and>
   (get_random_headers cfg e = Inl y \<longrightarrow>
      sent (async_worker cfg e s) = sent s \<and>
      stats (async_worker cfg e s) = count_error y (stats s)) \<and>
   r_method (async_request cfg h) = ''GET'' \<and> r_url (async_request cfg h) = url cfg \<and>
   r_headers (async_request cfg h) = h \<and> r_data (async_request cfg h) = None \<and>
   r_proxies (async_request cfg h) = None \<and> r_verify (async_request cfg h) = None \<and>
   ((\<forall>h. n (async_request cfg h) = n' (async_request cfg h)) \<longrightarrow>
      async_worker cfg (e\<lparr>net := n\<rparr>) s = async_worker cfg (e\<lparr>net := n'\<rparr>) s) \<and>
   async_worker (cfg\<lparr>method := m, payloads := ps, proxies := px, verify_ssl := v\<rparr>) e s =
     async_worker cfg e s \<and>
   bytes_sent (stats (async_worker cfg e s)) = bytes_sent (stats s) \<and>
   (step cfg True (Task k e) r = Some r1 \<longrightarrow> shared r1 = async_worker cfg e (shared r)) \<and>
   (exec cfg True evs r = Some r' \<longrightarrow>
      bytes_sent (stats (shared r')) = bytes_sent (stats (shared r)) \<and>
      (\<exists>new. sent (shared r') = sent (shared r) @ new \<and>
         (\<forall>rq \<in> set new. r_method rq = ''GET'' \<and> r_data rq = None \<and>
            r_proxies rq = None \<and> r_verify rq = None)))"
proof (intro conjI impI)
  show "shared r1 = async_worker cfg e (shared r)"
    if "step cfg True (Task k e) r = Some r1"
    using that by (auto split: if_splits)
next
  assume h: "get_random_headers cfg e = Inr h"
  then show "sent (async_worker cfg e s) = sent s @ [async_request cfg h]"
    by (rule async_worker_sent)
  show "stats (async_worker cfg e s) =
           async_count_response
             ((if random_delay cfg then uniform 0.01 0.2 (delay_draw e) else 0) + latency e)
             code len (stats s)"
    if "net e (async_request cfg h) = Response code len"
    by (simp add: async_worker_response [OF h that])
  show "stats (async_worker cfg e s) = count_error x (stats s)"
    if "net e (async_request cfg h) = Raises x"
    by (simp add: async_worker_raises [OF h that])
next
  assume y: "get_random_headers cfg e = Inl y"
  then show "sent (async_worker cfg e s) = sent s"
    by (simp add: async_worker_no_headers)
  from y show "stats (async_worker cfg e s) = count_error y (stats s)"
    by (simp add: async_worker_no_headers)
next
  show "async_worker cfg (e\<lparr>net := n\<rparr>) s = async_worker cfg (e\<lparr>net := n'\<rparr>) s"
    if "\<forall>h. n (async_request cfg h) = n' (async_request cfg h)"
    using that by (rule async_worker_net)
next
  assume e: "exec cfg True evs r = Some r'"
  then show "bytes_sent (stats (shared r')) = bytes_sent (stats (shared r))"
    by (rule async_exec_bytes_sent)
  from e show "\<exists>new. sent (shared r') = sent (shared r) @ new \<and>
         (\<forall>rq \<in> set new. r_method rq = ''GET'' \<and> r_data rq = None \<and>
            r_proxies rq = None \<and> r_verify rq = None)"
    by (rule async_exec_sends_bare_gets)
qed (simp_all add: async_request_def async_worker_ignores async_worker_bytes_sent)

lemma post_headers:
  "get_random_headers post_config quiet_env =
     Inr (base_headers (hd default_user_agents) quiet_env)"
  by (simp add: get_random_headers_def post_config_def default_config_def choice_def
      default_user_agents_def quiet_env_def)

lemma post_async_request:
  "async_request post_config h =
     \<lparr>r_method = ''GET'', r_url = ''http://localhost:8080/'', r_headers = h, r_data = None,
      r_proxies = None, r_timeout = 10, r_verify = None\<rparr>"
  by (simp add: async_request_def post_config_def default_config_def)

lemma post_async_run:
  "exec post_config True [LoopGuard, Spawn, Task 0 quiet_env] (start_storm post_config True 0) =
     Some \<lparr>shared =
             \<lparr>stats = new_stats\<lparr>total_requests := 1, successful := 1,
                        status_codes := [(''200'', 1)], response_times := [0.25],
                        bytes_received := 5\<rparr>,
              running = True, now = 0.251,
              sent = [async_request post_config
                        (base_headers (hd default_user_agents) quiet_env)]\<rparr>,
           workers = [], loop = AtGuard, tasks = [Done], interrupted = False\<rparr>"
proof -
  have t: "threads post_config = 50" "requests post_config = 0" "\<not> random_delay post_config"
    by (simp_all add: post_config_def default_config_def)
  have n: "net quiet_env rq = Response 200 5" "latency quiet_env = 0.25" for rq
    by (simp_all add: quiet_env_def)
  have s200: "str_int 200 = ''200''" by code_simp
  show ?thesis
    by (simp add: start_storm_def keep_going_def spawn_body_def t new_stats_def
        async_worker_response [OF post_headers n(1)] n(2) async_count_response_def
        bump_def get0_def s200)
qed

text \<open>Claim C10 at \<open>post_config\<close>, which asks for POST with a payload, a proxy and no
  verification: one pass of the loop, one task, one attempt. The one request sent is
  the GET, the 200 is counted, and \<open>bytes_sent\<close> is still zero.\<close>

theorem async_attempts_are_bare_gets_witness:
  "get_random_headers post_config quiet_env =
     Inr (base_headers (hd default_user_agents) quiet_env) \<and>
   net quiet_env (async_request post_config (base_headers (hd default_user_agents) quiet_env)) =
     Response 200 5 \<and>
   sent (async_worker post_config quiet_env fresh) =
     [\<lparr>r_method = ''GET'', r_url = ''http://localhost:8080/'',
       r_headers = base_headers (hd default_user_agents) quiet_env, r_data = None,
       r_proxies = None, r_timeout = 10, r_verify = None\<rparr>] \<and>
   successful (stats (async_worker post_config quiet_env fresh)) = 1 \<and>
   (\<exists>r'. exec post_config True [LoopGuard, Spawn, Task 0 quiet_env]
            (start_storm post_config True 0) = Some r' \<and>
         bytes_sent (stats (shared r')) = 0 \<and> total_requests (stats (shared r')) = 1 \<and>
         length (sent (shared r')) = 1 \<and>
         (\<forall>rq \<in> set (sent (shared r')). r_method rq = ''GET'' \<and> r_data rq = None \<and>
            r_proxies rq = None \<and> r_verify rq = None))"
proof -
  let ?h = "base_headers (hd default_user_agents) quiet_env"
  let ?r0 = "start_storm post_config True 0"
  let ?evs = "[LoopGuard, Spawn, Task 0 quiet_env]"
  have n: "net quiet_env (async_request post_config ?h) = Response 200 5"
    by (simp add: quiet_env_def)
  have d: "\<not> random_delay post_config" "latency quiet_env = 0.25"
    by (simp_all add: post_config_def default_config_def quiet_env_def)
  obtain r' where e: "exec post_config True ?evs ?r0 = Some r'"
    and t: "total_requests (stats (shared r')) = 1" and l: "length (sent (shared r')) = 1"
    using post_async_run by (simp add: new_stats_def)
  have z: "bytes_sent (stats (shared ?r0)) = 0" "sent (shared ?r0) = []"
    "sent fresh = []" "stats fresh = new_stats"
    by (simp_all add: start_storm_def new_stats_def fresh_def)
  note main = async_attempts_are_bare_gets
    [of post_config quiet_env ?h fresh 200 5 _ _ _ _ _ _ _ _ _ _ _ ?evs r']
  from main post_headers n
  have a: "sent (async_worker post_config quiet_env fresh) = sent fresh @ [async_request post_config ?h]"
    and b: "stats (async_worker post_config quiet_env fresh) =
      async_count_response ((if random_delay post_config
         then uniform 0.01 0.2 (delay_draw quiet_env) else 0) + latency quiet_env)
        200 5 (stats fresh)"
    by blast+
  from main e
  have c: "bytes_sent (stats (shared r')) = bytes_sent (stats (shared ?r0))"
    and g: "\<exists>new. sent (shared r') = sent (shared ?r0) @ new \<and>
         (\<forall>rq \<in> set new. r_method rq = ''GET'' \<and> r_data rq = None \<and>
            r_proxies rq = None \<and> r_verify rq = None)"
    by blast+
  from g z(2) have g': "\<forall>rq \<in> set (sent (shared r')). r_method rq = ''GET'' \<and>
      r_data rq = None \<and> r_proxies rq = None \<and> r_verify rq = None"
    by auto
  have s1: "sent (async_worker post_config quiet_env fresh) =
     [\<lparr>r_method = ''GET'', r_url = ''http://localhost:8080/'', r_headers = ?h, r_data = None,
       r_proxies = None, r_timeout = 10, r_verify = None\<rparr>]"
    unfolding a by (simp add: z post_async_request)
  have s2: "successful (stats (async_worker post_config quiet_env fresh)) = 1"
    unfolding b by (simp add: z async_count_response_def new_stats_def Let_def)
  from post_headers n s1 s2 e c z(1) t l g' show ?thesis
    by auto
qed

subsection \<open>The counters of one attempt\<close>

lemma async_worker_partition:
  "total_requests (stats (async_worker cfg e s)) = total_requests (stats s) + 1 \<and>
   successful (stats (async_worker cfg e s)) + failed (stats (async_worker cfg e s)) =
     successful (stats s) + failed (stats s) + 1"
  by (simp add: async_worker_def count_error_def async_count_response_def Let_def
      split: sum.split outcome.split)

lemma async_worker_timeouts:
  "timeouts (stats (async_worker cfg e s)) = timeouts (stats s)"
  by (simp add: async_worker_def count_error_def async_count_response_def Let_def
      split: sum.split outcome.split)


lemma make_request_running: "running (snd (make_request cfg e s)) = running s"
  by (simp add: make_request_def try_body_def Let_def
      split: sum.split outcome.split prod.split option.split)

text \<open>With GET or POST, a call of \<^verbatim>\<open>make_request\<close> that finds the stop flag unset
  counts one attempt, as a success or as a failure.\<close>

lemma make_request_partition:
  assumes "running s" and "upper (method cfg) = ''GET'' \<or> upper (method cfg) = ''POST''"
  shows "total_requests (stats (snd (make_request cfg e s))) = total_requests (stats s) + 1 \<and>
     successful (stats (snd (make_request cfg e s))) + failed (stats (snd (make_request cfg e s))) =
       successful (stats s) + failed (stats s) + 1"
  using assms
  by (auto simp add: make_request_def try_body_def sent_request_def count_error_def
      count_timeout_def count_response_def count_attempt_def Let_def
      split: sum.split outcome.split prod.split option.split)

lemma make_requests_partition:
  assumes "running s" and "upper (method cfg) = ''GET'' \<or> upper (method cfg) = ''POST''"
  shows "total_requests (stats (make_requests cfg es s)) = total_requests (stats s) + int (length es) \<and>
     successful (stats (make_requests cfg es s)) + failed (stats (make_requests cfg es s)) =
       successful (stats s) + failed (stats s) + int (length es)"
  using assms(1)
proof (induction es arbitrary: s)
  case Nil
  then show ?case by (simp add: make_requests_def)
next
  case (Cons e es)
  let ?s1 = "snd (make_request cfg e s)"
  have r: "running ?s1" using Cons.prems by (simp add: make_request_running)
  have u: "make_requests cfg (e # es) s = make_requests cfg es ?s1"
    by (simp add: make_requests_def)
  from Cons.IH [OF r] make_request_partition [OF Cons.prems assms(2), of e]
  show ?case unfolding u by simp
qed

lemma async_workers_partition:
  "total_requests (stats (async_workers cfg es s)) = total_requests (stats s) + int (length es) \<and>
   successful (stats (async_workers cfg es s)) + failed (stats (async_workers cfg es s)) =
     successful (stats s) + failed (stats s) + int (length es)"
proof (induction es arbitrary: s)
  case Nil
  then show ?case by (simp add: async_workers_def)
next
  case (Cons e es)
  have u: "async_workers cfg (e # es) s = async_workers cfg es (async_worker cfg e s)"
    by (simp add: async_workers_def)
  from Cons.IH [of "async_worker cfg e s"] async_worker_partition [of cfg e s]
  show ?case unfolding u by simp
qed

lemma put_config_from_main:
  "init (main_config default_args (Some put_file)) = Inr put_config"
  by (simp add: init_def main_config_def default_args_def default_config_def and_then_def
      subscript_def get_default_def put_file_def put_config_def empty_file_def
      mapping_update_def override_def)

text \<open>
  Claim C1 fails for a method that is neither GET nor POST (the configuration file can
  set one; \<^verbatim>\<open>main\<close> restricts only the command line). No request is sent, line 133
  counts the attempt, line 135 raises \<^verbatim>\<open>UnboundLocalError\<close> on the unbound
  \<^verbatim>\<open>response\<close>, and the handler of lines 160-165 counts the attempt again: one call,
  \<open>total_requests = 2\<close> and \<open>successful + failed = 1\<close>.
\<close>

theorem unknown_method_counted_twice:
  "init (main_config default_args (Some put_file)) = Inr put_config \<and>
   make_request put_config quiet_env fresh =
     (Some (ErrorOther UnboundLocalError),
      fresh\<lparr>stats := new_stats\<lparr>total_requests := 2, failed := 1, response_times := [0],
                 errors := [(''UnboundLocalError'', 1)]\<rparr>\<rparr>)"
proof -
  have h: "get_random_headers put_config quiet_env =
      Inr (base_headers (hd default_user_agents) quiet_env)"
    by (simp add: get_random_headers_def put_config_def default_config_def choice_def
        default_user_agents_def quiet_env_def)
  have m: "sent_request put_config hd p px = None" for hd p px
    by (simp add: sent_request_def put_config_def default_config_def)
  have d: "\<not> random_delay put_config"
    by (simp add: put_config_def default_config_def)
  have "make_request put_config quiet_env fresh =
     (Some (ErrorOther UnboundLocalError),
      fresh\<lparr>stats := new_stats\<lparr>total_requests := 2, failed := 1, response_times := [0],
                 errors := [(''UnboundLocalError'', 1)]\<rparr>\<rparr>)"
    by (simp add: make_request_def try_body_def h m d fresh_def new_stats_def
        count_attempt_def count_error_def bump_def get0_def)
  with put_config_from_main show ?thesis by simp
qed

text \<open>In thread mode a timeout of the exchange counts as one attempt, one timeout and one
  failure, and \<open>timeouts\<close> moves on no other outcome.\<close>

lemma make_request_timeout:
  assumes "running s" and "get_random_headers cfg e = Inr h"
    and "sent_request cfg h (get_random_payload cfg e) (random_proxy cfg e) = Some rq"
    and "net e rq = Raises RequestsTimeout"
  shows "make_request cfg e s =
     (Some ErrorTimeout,
      s\<lparr>now := now s + (if random_delay cfg then uniform 0.01 0.5 (delay_draw e) else 0)
                + latency e,
        sent := sent s @ [rq],
        stats := count_timeout (stats s)\<rparr>)"
  using assms by (simp add: make_request_def try_body_def Let_def)

lemma count_timeout_fields:
  "timeouts (count_timeout st) = timeouts st + 1"
  "failed (count_timeout st) = failed st + 1"
  "successful (count_timeout st) = successful st"
  "total_requests (count_timeout st) = total_requests st + 1"
  by (simp_all add: count_timeout_def)

lemma make_request_timeouts:
  "timeouts (stats (snd (make_request cfg e s))) =
     timeouts (stats s) + (if fst (make_request cfg e s) = Some ErrorTimeout then 1 else 0)"
  by (simp add: make_request_def try_body_def count_error_def count_timeout_def
      count_response_def count_attempt_def Let_def
      split: sum.split outcome.split prod.split option.split)

text \<open>
  Claim C2 fails in async mode. \<^verbatim>\<open>async_worker\<close> has one handler,
  \<^verbatim>\<open>except Exception\<close> (lines 225-230): the \<^verbatim>\<open>asyncio.TimeoutError\<close> of an
  exchange that runs into the timeout is counted as a failure and under
  \<^verbatim>\<open>errors['TimeoutError']\<close>, and \<open>timeouts\<close> stays at zero. The handler of
  \<^verbatim>\<open>make_request\<close> (lines 153-158) counts the timeout of the same exchange.
\<close>

theorem async_timeout_not_counted:
  "net asyncio_timeout_env (async_request default_config h) = Raises AsyncioTimeoutError \<and>
   timeouts (stats (async_worker default_config asyncio_timeout_env fresh)) = 0 \<and>
   failed (stats (async_worker default_config asyncio_timeout_env fresh)) = 1 \<and>
   errors (stats (async_worker default_config asyncio_timeout_env fresh)) =
     [(''TimeoutError'', 1)] \<and>
   timeouts (stats (snd (make_request default_config requests_timeout_env fresh))) = 1 \<and>
   failed (stats (snd (make_request default_config requests_timeout_env fresh))) = 1"
proof -
  have h: "get_random_headers default_config asyncio_timeout_env =
      Inr (base_headers (hd default_user_agents) asyncio_timeout_env)"
    by (simp add: get_random_headers_def default_config_def choice_def
        default_user_agents_def asyncio_timeout_env_def quiet_env_def)
  have n: "net asyncio_timeout_env rq = Raises AsyncioTimeoutError" for rq
    by (simp add: asyncio_timeout_env_def)
  have a: "stats (async_worker default_config asyncio_timeout_env fresh) =
      count_error AsyncioTimeoutError new_stats"
    by (simp add: async_worker_def h n Let_def fresh_def)
  have h': "get_random_headers default_config requests_timeout_env =
      Inr (base_headers (hd default_user_agents) requests_timeout_env)"
    by (simp add: get_random_headers_def default_config_def choice_def
        default_user_agents_def requests_timeout_env_def quiet_env_def)
  have n': "net requests_timeout_env rq = Raises RequestsTimeout" for rq
    by (simp add: requests_timeout_env_def)
  have r: "running fresh" by (simp add: fresh_def)
  have b: "stats (snd (make_request default_config requests_timeout_env fresh)) =
      count_timeout new_stats"
    unfolding make_request_timeout [OF r h' default_sent n'] by (simp add: fresh_def)
  show ?thesis
    unfolding a b
    by (simp add: n count_error_def count_timeout_def new_stats_def bump_def get0_def)
qed

text \<open>
  Claim C3 fails in async mode. \<^verbatim>\<open>async_worker\<close> reads the clock at line 203 and
  sleeps at lines 205-206, so the recorded time is the delay plus the exchange;
  \<^verbatim>\<open>make_request\<close> sleeps at lines 107-108 and reads the clock at line 110. With
  \<^verbatim>\<open>--random-delay\<close>, a draw of 0.5 and an exchange of 0.25 seconds, thread mode
  records 0.25 and async mode 0.355.
\<close>

theorem async_response_time_includes_delay:
  "latency quiet_env = 0.25 \<and>
   response_times (stats (snd (make_request delay_config quiet_env fresh))) = [0.25] \<and>
   response_times (stats (async_worker delay_config quiet_env fresh)) = [0.355]"
proof -
  have h: "get_random_headers delay_config quiet_env =
      Inr (base_headers (hd default_user_agents) quiet_env)"
    by (simp add: get_random_headers_def delay_config_def default_config_def choice_def
        default_user_agents_def quiet_env_def)
  have n: "net quiet_env rq = Response 200 5" for rq by (simp add: quiet_env_def)
  have l: "latency quiet_env = 0.25" "delay_draw quiet_env = 0.5" by (simp_all add: quiet_env_def)
  have d: "random_delay delay_config" by (simp add: delay_config_def)
  have r: "running fresh" by (simp add: fresh_def)
  have sent: "sent_request delay_config hd (get_random_payload delay_config quiet_env)
       (random_proxy delay_config quiet_env) =
     Some \<lparr>r_method = ''GET'', r_url = ''http://localhost:8080/'', r_headers = hd,
           r_data = None, r_proxies = None, r_timeout = 10, r_verify = Some True\<rparr>" for hd
    by (simp add: sent_request_def delay_config_def default_config_def random_proxy_def
        proxies_arg_def)
  have a: "response_times (stats (snd (make_request delay_config quiet_env fresh))) = [0.25]"
    unfolding make_request_response [OF r h sent n]
    by (simp add: l count_response_def count_attempt_def Let_def fresh_def new_stats_def)
  have b: "response_times (stats (async_worker delay_config quiet_env fresh)) = [0.355]"
    unfolding async_worker_response [OF h n]
    by (simp add: l d async_count_response_def Let_def fresh_def new_stats_def uniform_def)
  from l(1) a b show ?thesis by simp
qed

text \<open>
  Claim C4 fails for GET with a payload list that is not empty. Line 103 draws a payload
  whatever the method is, \<^verbatim>\<open>session.get\<close> sends none (lines 113-119), and lines
  136-137 add its length to \<open>bytes_sent\<close>: three bytes for a request that carried no
  body. The async worker, which also sends a GET, leaves \<open>bytes_sent\<close> alone.
\<close>

theorem get_counts_payload_as_sent:
  "(\<exists>h rq. get_random_headers get_payload_config quiet_env = Inr h \<and>
      sent_request get_payload_config h (get_random_payload get_payload_config quiet_env)
        (random_proxy get_payload_config quiet_env) = Some rq \<and>
      r_method rq = ''GET'' \<and> r_data rq = None) \<and>
   fst (make_request get_payload_config quiet_env fresh) = Some (Completed 200 0.25 5) \<and>
   bytes_sent (stats (snd (make_request get_payload_config quiet_env fresh))) = 3 \<and>
   bytes_sent (stats (async_worker get_payload_config quiet_env fresh)) = 0"
proof -
  have h: "get_random_headers get_payload_config quiet_env =
      Inr (base_headers (hd default_user_agents) quiet_env)"
    by (simp add: get_random_headers_def get_payload_config_def default_config_def choice_def
        default_user_agents_def quiet_env_def)
  have p: "get_random_payload get_payload_config quiet_env = PStr ''a=1''"
    by (simp add: get_random_payload_def get_payload_config_def pick_def)
  have sent: "sent_request get_payload_config hd (get_random_payload get_payload_config quiet_env)
       (random_proxy get_payload_config quiet_env) =
     Some \<lparr>r_method = ''GET'', r_url = ''http://localhost:8080/'', r_headers = hd,
           r_data = None, r_proxies = None, r_timeout = 10, r_verify = Some True\<rparr>" for hd
    by (simp add: sent_request_def get_payload_config_def default_config_def random_proxy_def
        proxies_arg_def)
  have n: "net quiet_env rq = Response 200 5" for rq by (simp add: quiet_env_def)
  have l: "latency quiet_env = 0.25" by (simp add: quiet_env_def)
  have r: "running fresh" by (simp add: fresh_def)
  have m: "fst (make_request get_payload_config quiet_env fresh) = Some (Completed 200 0.25 5)"
    unfolding make_request_response [OF r h sent n] by (simp add: l)
  have b: "bytes_sent (stats (snd (make_request get_payload_config quiet_env fresh))) = 3"
    unfolding make_request_response [OF r h sent n]
    by (simp add: p count_response_def count_attempt_def Let_def fresh_def new_stats_def)
  have a: "bytes_sent (stats (async_worker get_payload_config quiet_env fresh)) = 0"
    by (simp add: async_worker_bytes_sent fresh_def new_stats_def)
  show ?thesis
    using h sent a b m by simp
qed

subsection \<open>The constructor\<close>

lemma default_url_accepted: "url_accepted (a_url default_args)"
  by (simp add: url_accepted_def default_args_def)










subsection \<open>The run\<close>








subsubsection \<open>Counting the attempts let through\<close>









subsubsection \<open>The invariants of a run under a positive ceiling\<close>









subsubsection \<open>The duration is not read\<close>







subsubsection \<open>The ceiling governs the run\<close>









end
